theory Spec2Isabelle
  imports Complex_Main "HOL-Library.Sublist"
begin

section \<open>Python values crossing the HTTP boundary\<close>

text \<open>
  The roadmap endpoint of \<^verbatim>\<open>src/ai_service/main.py\<close> receives a \<^verbatim>\<open>RoadmapRequest\<close>:
  \<^verbatim>\<open>missing: list[str]\<close>, \<^verbatim>\<open>preferences: dict | None\<close>, \<^verbatim>\<open>interview: dict | None\<close>.
  The two dictionaries hold arbitrary JSON values, so the fields the endpoint reads from
  them may have any JSON type. Strings are lists of characters with code points below 256;
  Python integers are unbounded (\<open>int\<close>); a float is a rational or one of the three
  special values.
\<close>

datatype pyfloat = Finite rat | PosInf | NegInf | NaN

datatype json =
    JNone
  | JBool bool
  | JInt int
  | JFloat pyfloat
  | JStr string
  | JList "json list"
  | JDict "(string \<times> json) list"

text \<open>The exceptions the endpoint can raise while it reads the optional fields.\<close>

datatype error = TypeError | ValueError | AttributeError | OverflowError

text \<open>Sequencing: an exception raised by the first step ends the computation.\<close>

definition and_then :: "error + 'a \<Rightarrow> ('a \<Rightarrow> error + 'b) \<Rightarrow> error + 'b" where
  "and_then r f = (case r of Inl e \<Rightarrow> Inl e | Inr x \<Rightarrow> f x)"

subsection \<open>String methods\<close>

text \<open>\<^verbatim>\<open>str.lower()\<close> on code points below 256: A-Z and the accented capitals move up by 32.\<close>

definition lower_char :: "char \<Rightarrow> char" where
  "lower_char c =
     (let n = (of_char c :: nat) in
      if (65 \<le> n \<and> n \<le> 90) \<or> (192 \<le> n \<and> n \<le> 222 \<and> n \<noteq> 215)
      then char_of (n + 32) else c)"

definition lower :: "string \<Rightarrow> string" where
  "lower s = map lower_char s"

text \<open>The characters \<^verbatim>\<open>str.strip()\<close> removes: those for which \<^verbatim>\<open>isspace()\<close> holds.\<close>

definition is_space :: "char \<Rightarrow> bool" where
  "is_space c =
     (let n = (of_char c :: nat) in
      (9 \<le> n \<and> n \<le> 13) \<or> (28 \<le> n \<and> n \<le> 32) \<or> n = 133 \<or> n = 160)"

definition strip :: "string \<Rightarrow> string" where
  "strip s = rev (dropWhile is_space (rev (dropWhile is_space s)))"

text \<open>\<^verbatim>\<open>sep.join(xs)\<close>.\<close>

fun join :: "string \<Rightarrow> string list \<Rightarrow> string" where
  "join sep [] = []"
| "join sep [x] = x"
| "join sep (x # y # ys) = x @ sep @ join sep (y # ys)"

text \<open>
  The substring test \<^verbatim>\<open>a in b\<close> of two strings is \<^const>\<open>sublist\<close>:
  \<open>b = ps @ a @ ss\<close> for some \<open>ps\<close> and \<open>ss\<close>.
\<close>

subsection \<open>Truthiness, \<^verbatim>\<open>or\<close>, \<^verbatim>\<open>dict.get\<close>, iteration, \<^verbatim>\<open>int()\<close>\<close>

fun truthy :: "json \<Rightarrow> bool" where
  "truthy JNone = False"
| "truthy (JBool b) = b"
| "truthy (JInt n) = (n \<noteq> 0)"
| "truthy (JFloat (Finite q)) = (q \<noteq> 0)"
| "truthy (JFloat PosInf) = True"
| "truthy (JFloat NegInf) = True"
| "truthy (JFloat NaN) = True"
| "truthy (JStr s) = (s \<noteq> [])"
| "truthy (JList xs) = (xs \<noteq> [])"
| "truthy (JDict kvs) = (kvs \<noteq> [])"

definition py_or :: "json \<Rightarrow> json \<Rightarrow> json" where
  "py_or x d = (if truthy x then x else d)"

definition dict_get :: "(string \<times> json) list \<Rightarrow> string \<Rightarrow> json" where
  "dict_get d k = (case map_of d k of None \<Rightarrow> JNone | Some v \<Rightarrow> v)"

text \<open>\<^verbatim>\<open>req.preferences or {}\<close>: \<^verbatim>\<open>None\<close> and the empty dictionary both give \<^verbatim>\<open>{}\<close>.\<close>

definition or_empty_dict :: "(string \<times> json) list option \<Rightarrow> (string \<times> json) list" where
  "or_empty_dict d = (case d of None \<Rightarrow> [] | Some kvs \<Rightarrow> kvs)"

text \<open>
  \<^verbatim>\<open>for x in v\<close>: a list yields its entries, a string its characters, a dictionary its
  keys; every other value is not iterable.
\<close>

fun py_iter :: "json \<Rightarrow> error + json list" where
  "py_iter (JList xs) = Inr xs"
| "py_iter (JStr s) = Inr (map (\<lambda>c. JStr [c]) s)"
| "py_iter (JDict kvs) = Inr (map (\<lambda>kv. JStr (fst kv)) kvs)"
| "py_iter JNone = Inl TypeError"
| "py_iter (JBool b) = Inl TypeError"
| "py_iter (JInt n) = Inl TypeError"
| "py_iter (JFloat f) = Inl TypeError"

text \<open>The entries that pass \<^verbatim>\<open>isinstance(x, str)\<close>, in order.\<close>

fun str_entries :: "json list \<Rightarrow> string list" where
  "str_entries [] = []"
| "str_entries (JStr s # xs) = s # str_entries xs"
| "str_entries (JNone # xs) = str_entries xs"
| "str_entries (JBool b # xs) = str_entries xs"
| "str_entries (JInt n # xs) = str_entries xs"
| "str_entries (JFloat f # xs) = str_entries xs"
| "str_entries (JList ys # xs) = str_entries xs"
| "str_entries (JDict kvs # xs) = str_entries xs"

text \<open>\<^verbatim>\<open>v.lower()\<close>: only a string has the method.\<close>

fun py_lower :: "json \<Rightarrow> error + string" where
  "py_lower (JStr s) = Inr (lower s)"
| "py_lower JNone = Inl AttributeError"
| "py_lower (JBool b) = Inl AttributeError"
| "py_lower (JInt n) = Inl AttributeError"
| "py_lower (JFloat f) = Inl AttributeError"
| "py_lower (JList xs) = Inl AttributeError"
| "py_lower (JDict kvs) = Inl AttributeError"

text \<open>
  \<^verbatim>\<open>int(s)\<close> for a string. The conversion skips leading and trailing whitespace of its
  own kind: tab, line feed, vertical tab, form feed, carriage return and space, and the
  two characters above 127 that count as spaces (0x85, 0xA0); the separators 0x1C-0x1F,
  which \<^verbatim>\<open>str.strip()\<close> removes, are invalid here. Then one sign is allowed, followed by
  decimal digits, where single underscores may stand between digits. A literal of more
  than \<^verbatim>\<open>sys.get_int_max_str_digits()\<close> digits is refused; the service leaves that limit
  at the interpreter's default, 4300. Underscores and the sign do not count, leading
  zeros do. Every failure is a \<^verbatim>\<open>ValueError\<close>.
\<close>

definition is_int_space :: "char \<Rightarrow> bool" where
  "is_int_space c =
     (let n = (of_char c :: nat) in (9 \<le> n \<and> n \<le> 13) \<or> n = 32 \<or> n = 133 \<or> n = 160)"

definition int_strip :: "string \<Rightarrow> string" where
  "int_strip s = rev (dropWhile is_int_space (rev (dropWhile is_int_space s)))"

definition max_str_digits :: nat where
  "max_str_digits = 4300"

definition is_digit :: "char \<Rightarrow> bool" where
  "is_digit c = (48 \<le> (of_char c :: nat) \<and> (of_char c :: nat) \<le> 57)"

fun parse_digits :: "bool \<Rightarrow> nat \<Rightarrow> string \<Rightarrow> nat option" where
  "parse_digits prev acc [] = (if prev then Some acc else None)"
| "parse_digits prev acc (c # cs) =
     (if is_digit c then parse_digits True (10 * acc + (of_char c - 48)) cs
      else if c = CHR ''_'' \<and> prev then parse_digits False acc cs
      else None)"

definition int_of_str :: "string \<Rightarrow> int option" where
  "int_of_str s =
     (case int_strip s of
        [] \<Rightarrow> None
      | c # cs \<Rightarrow>
          let body = (if c = CHR ''-'' \<or> c = CHR ''+'' then cs else c # cs) in
          if max_str_digits < length (filter is_digit body) then None
          else map_option (\<lambda>n. if c = CHR ''-'' then - int n else int n)
                 (parse_digits False 0 body))"

text \<open>\<^verbatim>\<open>int(v)\<close>: a float is truncated towards zero.\<close>

fun py_int :: "json \<Rightarrow> error + int" where
  "py_int (JInt n) = Inr n"
| "py_int (JBool b) = Inr (if b then 1 else 0)"
| "py_int (JFloat (Finite q)) = Inr (if 0 \<le> q then \<lfloor>q\<rfloor> else \<lceil>q\<rceil>)"
| "py_int (JFloat PosInf) = Inl OverflowError"
| "py_int (JFloat NegInf) = Inl OverflowError"
| "py_int (JFloat NaN) = Inl ValueError"
| "py_int (JStr s) = (case int_of_str s of None \<Rightarrow> Inl ValueError | Some n \<Rightarrow> Inr n)"
| "py_int JNone = Inl TypeError"
| "py_int (JList xs) = Inl TypeError"
| "py_int (JDict kvs) = Inl TypeError"

section \<open>The roadmap endpoint\<close>

record resource =
  title :: string
  url :: string
  type :: string

record week_plan =
  week :: nat
  milestone :: string
  tasks :: "string list"
  learning_resources :: "resource list"

subsection \<open>Reading the request\<close>

text \<open>
  \<^verbatim>\<open>missing = [m.strip() for m in (req.missing or []) if m and isinstance(m, str)]\<close>:
  the entries of \<^verbatim>\<open>req.missing\<close> are strings already; the filter looks at the entry
  before it is stripped.
\<close>

definition clean_missing :: "string list \<Rightarrow> string list" where
  "clean_missing req_missing = map strip (filter (\<lambda>m. m \<noteq> []) req_missing)"

definition req_focus :: "(string \<times> json) list \<Rightarrow> error + string list" where
  "req_focus prefs =
     (case py_iter (py_or (dict_get prefs ''focus'') (JList [])) of
        Inl e \<Rightarrow> Inl e
      | Inr xs \<Rightarrow> Inr (map lower (str_entries xs)))"

definition req_pace :: "(string \<times> json) list \<Rightarrow> error + string" where
  "req_pace prefs = py_lower (py_or (dict_get prefs ''pace'') (JStr ''balanced''))"

definition req_hours :: "(string \<times> json) list \<Rightarrow> error + int" where
  "req_hours prefs = py_int (py_or (dict_get prefs ''availability_hours'') (JInt 6))"

definition req_topics :: "(string \<times> json) list \<Rightarrow> string \<Rightarrow> error + string list" where
  "req_topics interview key =
     (case py_iter (py_or (dict_get interview key) (JList [])) of
        Inl e \<Rightarrow> Inl e
      | Inr xs \<Rightarrow> Inr (str_entries xs))"

definition req_avg_score :: "(string \<times> json) list \<Rightarrow> error + int" where
  "req_avg_score interview = py_int (py_or (dict_get interview ''avg_score'') (JInt 0))"

subsection \<open>Prioritization\<close>

definition area_map :: "(string \<times> string list) list" where
  "area_map =
     [(''frontend'', [''React'', ''TailwindCSS'']),
      (''backend'', [''Node.js'', ''Express'', ''MongoDB'']),
      (''cloud'', [''AWS'', ''Docker'']),
      (''ml'', [''Python'', ''NLP''])]"

definition area_skills :: "string \<Rightarrow> string list" where
  "area_skills area = (case map_of area_map area of None \<Rightarrow> [] | Some ss \<Rightarrow> ss)"

definition add_focus_skill :: "string list \<Rightarrow> string \<Rightarrow> string list \<Rightarrow> string list" where
  "add_focus_skill missing s prioritized =
     (if s \<in> set missing \<and> s \<notin> set prioritized then prioritized @ [s] else prioritized)"

definition add_remaining :: "string \<Rightarrow> string list \<Rightarrow> string list" where
  "add_remaining s prioritized =
     (if s \<notin> set prioritized then prioritized @ [s] else prioritized)"

definition prioritize :: "string list \<Rightarrow> string list \<Rightarrow> string list" where
  "prioritize focus missing =
     fold add_remaining missing
       (fold (\<lambda>area. fold (add_focus_skill missing) (area_skills area)) focus [])"

subsection \<open>Learning resources\<close>

text \<open>The catalog, in the enumeration order of the dictionary literal.\<close>

definition skill_resources :: "(string \<times> (string \<times> resource list) list) list" where
  "skill_resources =
     [(''React'',
        [(''foundations'',
           [\<lparr>title = ''React Official Documentation'', url = ''https://react.dev/learn'',
              type = ''documentation''\<rparr>,
            \<lparr>title = ''React Tutorial for Beginners'', url = ''https://www.freecodecamp.org/news/react-beginner-handbook/'',
              type = ''tutorial''\<rparr>,
            \<lparr>title = ''React Hooks Explained'', url = ''https://www.youtube.com/watch?v=O6P86uwfdR0'',
              type = ''video''\<rparr>]),
         (''project'',
           [\<lparr>title = ''React Project Ideas'', url = ''https://github.com/florinpop17/app-ideas'',
              type = ''project-ideas''\<rparr>,
            \<lparr>title = ''Testing React Apps'', url = ''https://testing-library.com/docs/react-testing-library/intro/'',
              type = ''documentation''\<rparr>,
            \<lparr>title = ''React Best Practices'', url = ''https://react.dev/learn/thinking-in-react'',
              type = ''guide''\<rparr>])]),
      (''Node.js'',
        [(''foundations'',
           [\<lparr>title = ''Node.js Official Docs'', url = ''https://nodejs.org/en/docs/'',
              type = ''documentation''\<rparr>,
            \<lparr>title = ''Node.js Tutorial'', url = ''https://www.w3schools.com/nodejs/'',
              type = ''tutorial''\<rparr>,
            \<lparr>title = ''Node.js Crash Course'', url = ''https://www.youtube.com/watch?v=fBNz5xF-Kx4'',
              type = ''video''\<rparr>]),
         (''project'',
           [\<lparr>title = ''Express.js Guide'', url = ''https://expressjs.com/en/starter/installing.html'',
              type = ''documentation''\<rparr>,
            \<lparr>title = ''Node.js Testing with Jest'', url = ''https://jestjs.io/docs/getting-started'',
              type = ''documentation''\<rparr>,
            \<lparr>title = ''Node.js Best Practices'', url = ''https://github.com/goldbergyoni/nodebestpractices'',
              type = ''guide''\<rparr>])]),
      (''Python'',
        [(''foundations'',
           [\<lparr>title = ''Python Official Tutorial'', url = ''https://docs.python.org/3/tutorial/'',
              type = ''documentation''\<rparr>,
            \<lparr>title = ''Python for Beginners'', url = ''https://www.python.org/about/gettingstarted/'',
              type = ''tutorial''\<rparr>,
            \<lparr>title = ''Python Crash Course'', url = ''https://www.youtube.com/watch?v=rfscVS0vtbw'',
              type = ''video''\<rparr>]),
         (''project'',
           [\<lparr>title = ''Python Project Ideas'', url = ''https://github.com/karan/Projects'',
              type = ''project-ideas''\<rparr>,
            \<lparr>title = ''Python Testing with pytest'', url = ''https://docs.pytest.org/en/stable/'',
              type = ''documentation''\<rparr>,
            \<lparr>title = ''Python Best Practices'', url = ''https://realpython.com/python-code-quality/'',
              type = ''guide''\<rparr>])]),
      (''MongoDB'',
        [(''foundations'',
           [\<lparr>title = ''MongoDB University'', url = ''https://university.mongodb.com/'',
              type = ''course''\<rparr>,
            \<lparr>title = ''MongoDB Tutorial'', url = ''https://www.mongodb.com/docs/manual/tutorial/'',
              type = ''tutorial''\<rparr>,
            \<lparr>title = ''MongoDB Crash Course'', url = ''https://www.youtube.com/watch?v=pWbMrx5rVBE'',
              type = ''video''\<rparr>]),
         (''project'',
           [\<lparr>title = ''MongoDB with Node.js'', url = ''https://www.mongodb.com/docs/drivers/node/current/'',
              type = ''documentation''\<rparr>,
            \<lparr>title = ''MongoDB Schema Design'', url = ''https://www.mongodb.com/docs/manual/data-modeling/'',
              type = ''guide''\<rparr>,
            \<lparr>title = ''MongoDB Performance'', url = ''https://www.mongodb.com/docs/manual/administration/analyzing-mongodb-performance/'',
              type = ''guide''\<rparr>])]),
      (''Express'',
        [(''foundations'',
           [\<lparr>title = ''Express.js Official Guide'', url = ''https://expressjs.com/en/guide/routing.html'',
              type = ''documentation''\<rparr>,
            \<lparr>title = ''Express.js Tutorial'', url = ''https://www.tutorialspoint.com/expressjs/'',
              type = ''tutorial''\<rparr>,
            \<lparr>title = ''Express.js Crash Course'', url = ''https://www.youtube.com/watch?v=L72fhGm1tfE'',
              type = ''video''\<rparr>]),
         (''project'',
           [\<lparr>title = ''Express.js Best Practices'', url = ''https://expressjs.com/en/advanced/best-practice-security.html'',
              type = ''guide''\<rparr>,
            \<lparr>title = ''Express.js Testing'', url = ''https://www.albertgao.xyz/2017/05/24/how-to-test-expressjs-with-jest-and-supertest/'',
              type = ''tutorial''\<rparr>,
            \<lparr>title = ''Express.js Middleware'', url = ''https://expressjs.com/en/guide/using-middleware.html'',
              type = ''documentation''\<rparr>])]),
      (''AWS'',
        [(''foundations'',
           [\<lparr>title = ''AWS Getting Started'', url = ''https://aws.amazon.com/getting-started/'',
              type = ''documentation''\<rparr>,
            \<lparr>title = ''AWS Free Tier'', url = ''https://aws.amazon.com/free/'',
              type = ''tutorial''\<rparr>,
            \<lparr>title = ''AWS Fundamentals'', url = ''https://www.youtube.com/watch?v=ulprqHHWlng'',
              type = ''video''\<rparr>]),
         (''project'',
           [\<lparr>title = ''AWS Project Ideas'', url = ''https://aws.amazon.com/getting-started/hands-on/'',
              type = ''project-ideas''\<rparr>,
            \<lparr>title = ''AWS Well-Architected'', url = ''https://aws.amazon.com/architecture/well-architected/'',
              type = ''guide''\<rparr>,
            \<lparr>title = ''AWS Security Best Practices'', url = ''https://aws.amazon.com/architecture/security-identity-compliance/'',
              type = ''guide''\<rparr>])]),
      (''Docker'',
        [(''foundations'',
           [\<lparr>title = ''Docker Official Tutorial'', url = ''https://docs.docker.com/get-started/'',
              type = ''documentation''\<rparr>,
            \<lparr>title = ''Docker for Beginners'', url = ''https://docker-curriculum.com/'',
              type = ''tutorial''\<rparr>,
            \<lparr>title = ''Docker Crash Course'', url = ''https://www.youtube.com/watch?v=fqMOX6JJhGo'',
              type = ''video''\<rparr>]),
         (''project'',
           [\<lparr>title = ''Docker Best Practices'', url = ''https://docs.docker.com/develop/dev-best-practices/'',
              type = ''guide''\<rparr>,
            \<lparr>title = ''Docker Compose Tutorial'', url = ''https://docs.docker.com/compose/gettingstarted/'',
              type = ''tutorial''\<rparr>,
            \<lparr>title = ''Docker Security'', url = ''https://docs.docker.com/engine/security/'',
              type = ''guide''\<rparr>])]),
      (''TailwindCSS'',
        [(''foundations'',
           [\<lparr>title = ''Tailwind CSS Documentation'', url = ''https://tailwindcss.com/docs'',
              type = ''documentation''\<rparr>,
            \<lparr>title = ''Tailwind CSS Tutorial'', url = ''https://www.youtube.com/watch?v=UBOj6rqRUME'',
              type = ''video''\<rparr>,
            \<lparr>title = ''Tailwind CSS Components'', url = ''https://tailwindui.com/components'',
              type = ''examples''\<rparr>]),
         (''project'',
           [\<lparr>title = ''Tailwind CSS Best Practices'', url = ''https://tailwindcss.com/docs/reusing-styles'',
              type = ''guide''\<rparr>,
            \<lparr>title = ''Tailwind CSS with React'', url = ''https://tailwindcss.com/docs/guides/create-react-app'',
              type = ''tutorial''\<rparr>,
            \<lparr>title = ''Responsive Design with Tailwind'', url = ''https://tailwindcss.com/docs/responsive-design'',
              type = ''documentation''\<rparr>])]),
      (''NLP'',
        [(''foundations'',
           [\<lparr>title = ''Natural Language Processing with Python'', url = ''https://www.nltk.org/book/'',
              type = ''book''\<rparr>,
            \<lparr>title = ''spaCy Tutorial'', url = ''https://spacy.io/usage/spacy-101'',
              type = ''tutorial''\<rparr>,
            \<lparr>title = ''NLP Course by Hugging Face'', url = ''https://huggingface.co/course/chapter1/1'',
              type = ''course''\<rparr>]),
         (''project'',
           [\<lparr>title = ''NLP Project Ideas'', url = ''https://github.com/keon/awesome-nlp'',
              type = ''project-ideas''\<rparr>,
            \<lparr>title = ''Transformers Library'', url = ''https://huggingface.co/docs/transformers/index'',
              type = ''documentation''\<rparr>,
            \<lparr>title = ''NLP with PyTorch'', url = ''https://pytorch.org/tutorials/beginner/nlp/'',
              type = ''tutorial''\<rparr>])])]"

text \<open>\<^verbatim>\<open>default_resources\<close>: the search links built from the skill name.\<close>

definition default_resources :: "string \<Rightarrow> (string \<times> resource list) list" where
  "default_resources skill =
     [(''foundations'',
        [\<lparr>title = skill @ '' Official Documentation'',
           url = ''https://www.google.com/search?q='' @ skill @ ''+official+documentation'',
           type = ''documentation''\<rparr>,
         \<lparr>title = skill @ '' Tutorial'',
           url = ''https://www.google.com/search?q='' @ skill @ ''+tutorial+beginner'',
           type = ''tutorial''\<rparr>,
         \<lparr>title = skill @ '' Video Course'',
           url = ''https://www.youtube.com/results?search_query='' @ skill @ ''+crash+course'',
           type = ''video''\<rparr>]),
      (''project'',
        [\<lparr>title = skill @ '' Project Ideas'',
           url = ''https://www.google.com/search?q='' @ skill @ ''+project+ideas'',
           type = ''project-ideas''\<rparr>,
         \<lparr>title = skill @ '' Best Practices'',
           url = ''https://www.google.com/search?q='' @ skill @ ''+best+practices'',
           type = ''guide''\<rparr>,
         \<lparr>title = skill @ '' Testing Guide'',
           url = ''https://www.google.com/search?q='' @ skill @ ''+testing+guide'',
           type = ''guide''\<rparr>])]"

text \<open>The bucket chosen from the milestone title.\<close>

definition resource_type :: "string \<Rightarrow> string" where
  "resource_type milestone_type =
     (if sublist ''foundations'' (lower milestone_type) then ''foundations''
      else if sublist ''project'' (lower milestone_type) then ''project''
      else if sublist ''reinforcement'' (lower milestone_type) then ''project''
      else ''foundations'')"

text \<open>
  The partial match of the loop over the catalog keys: the first key that contains the
  skill or is contained in it, both lowercased.
\<close>

definition partial_match :: "string \<Rightarrow> string \<Rightarrow> bool" where
  "partial_match skill key =
     (sublist (lower key) (lower skill) \<or> sublist (lower skill) (lower key))"

definition skill_key :: "string \<Rightarrow> string" where
  "skill_key skill =
     (if map_of skill_resources skill \<noteq> None then skill
      else case find (partial_match skill) (map fst skill_resources) of
             Some key \<Rightarrow> key
           | None \<Rightarrow> skill)"

text \<open>\<^verbatim>\<open>d.get(resource_type, [])\<close> on a bucket dictionary.\<close>

definition bucket :: "(string \<times> resource list) list \<Rightarrow> string \<Rightarrow> resource list" where
  "bucket d rt = (case map_of d rt of None \<Rightarrow> [] | Some rs \<Rightarrow> rs)"

definition get_learning_resources :: "string \<Rightarrow> string \<Rightarrow> resource list" where
  "get_learning_resources skill milestone_type =
     (case map_of skill_resources (skill_key skill) of
        Some buckets \<Rightarrow> bucket buckets (resource_type milestone_type)
      | None \<Rightarrow> bucket (default_resources skill) (resource_type milestone_type))"

subsection \<open>Appending a week\<close>

text \<open>
  \<^verbatim>\<open>add_week\<close> closes over \<^verbatim>\<open>pace\<close>, \<^verbatim>\<open>hours\<close> and the list \<^verbatim>\<open>weeks\<close>, which it
  extends in place; here the three are arguments and the extended list is returned.
  \<open>base_tasks\<close> is the adjusted copy of the task list that \<^verbatim>\<open>add_week\<close> computes first.
  The capstone and assessment calls leave \<^verbatim>\<open>skill\<close> at its default, the empty string.
\<close>

definition optional_task :: string where
  "optional_task = ''Optional advanced reading/practice for stretch goals''"

definition reflect_task :: string where
  "reflect_task = ''Reflect: write notes on key learnings''"

definition base_tasks :: "string \<Rightarrow> int \<Rightarrow> string list \<Rightarrow> string list" where
  "base_tasks pace hours task_list =
     (if pace = ''fast'' \<and> 8 \<le> hours then task_list @ [optional_task]
      else if pace = ''slow'' \<or> hours < 5 then take 2 task_list @ [reflect_task]
      else task_list)"

definition add_week ::
  "string \<Rightarrow> int \<Rightarrow> string \<Rightarrow> string list \<Rightarrow> string \<Rightarrow> week_plan list \<Rightarrow> week_plan list" where
  "add_week pace hours milestone_title task_list skill weeks =
     (let resources = (if skill \<noteq> [] then get_learning_resources skill milestone_title else [])
      in weeks @
         [\<lparr>week = length weeks + 1, milestone = milestone_title,
           tasks = base_tasks pace hours task_list, learning_resources = resources\<rparr>])"

text \<open>\<^verbatim>\<open>if weeks: weeks[-1]["learning_resources"] = rs\<close>.\<close>

definition set_last_resources :: "resource list \<Rightarrow> week_plan list \<Rightarrow> week_plan list" where
  "set_last_resources rs weeks =
     (if weeks = [] then weeks
      else butlast weeks @ [(last weeks)\<lparr>learning_resources := rs\<rparr>])"

subsection \<open>The weeks of one skill\<close>

definition flagged_weak :: "string list \<Rightarrow> string \<Rightarrow> bool" where
  "flagged_weak weak_topics skill = list_ex (\<lambda>t. sublist (lower skill) (lower t)) weak_topics"

definition skill_weeks ::
  "string \<Rightarrow> int \<Rightarrow> string list \<Rightarrow> string \<Rightarrow> week_plan list \<Rightarrow> week_plan list" where
  "skill_weeks pace hours weak_topics skill weeks =
     (let weeks1 =
            add_week pace hours (''Foundations: '' @ skill)
              [''Read the official '' @ skill @ '' docs and summarize key concepts'',
               ''Complete a beginner tutorial/course for '' @ skill,
               ''Practice: implement 2-3 small exercises using '' @ skill]
              skill weeks;
          weeks2 =
            add_week pace hours (''Project: Build with '' @ skill)
              [''Design and build a mini app using '' @ skill,
               ''Add tests (unit/integration) and linting for the project'',
               ''Document learnings and challenges; push to a public repo'']
              skill weeks1
      in if flagged_weak weak_topics skill
         then add_week pace hours (''Reinforcement: '' @ skill)
                [''Targeted practice on weak areas in '' @ skill @ '' (based on interview)'',
                 ''Implement a small feature addressing an identified gap in '' @ skill,
                 ''Summarize lessons learned and update your notes'']
                skill weeks2
         else weeks2)"

subsection \<open>Capstone and assessment\<close>

definition capstone_resources :: "resource list" where
  "capstone_resources =
     [\<lparr>title = ''Portfolio Project Ideas'',
        url = ''https://github.com/practical-tutorials/project-based-learning'',
        type = ''project-ideas''\<rparr>,
      \<lparr>title = ''Clean Architecture Guide'',
        url = ''https://blog.cleancoder.com/uncle-bob/2012/08/13/the-clean-architecture.html'',
        type = ''guide''\<rparr>,
      \<lparr>title = ''CI/CD Best Practices'',
        url = ''https://docs.github.com/en/actions/learn-github-actions'',
        type = ''documentation''\<rparr>]"

definition assessment_resources :: "resource list" where
  "assessment_resources =
     [\<lparr>title = ''How to Write a Great README'', url = ''https://www.makeareadme.com/'',
        type = ''guide''\<rparr>,
      \<lparr>title = ''Creating Demo Videos'', url = ''https://www.loom.com/'', type = ''tool''\<rparr>,
      \<lparr>title = ''Technical Interview Stories'',
        url = ''https://www.pramp.com/blog/how-to-tell-your-story-during-a-technical-interview'',
        type = ''guide''\<rparr>]"

definition stretch_task :: string where
  "stretch_task = ''Stretch: add an advanced feature and write a postmortem''"

definition scope_down_task :: string where
  "scope_down_task = ''Scope down and solidify fundamentals before expanding''"

definition capstone_tasks :: "int \<Rightarrow> string list" where
  "capstone_tasks avg_score =
     [''Plan a portfolio-level project combining the learned skills'',
      ''Implement core features, focusing on clean architecture'',
      ''Add basic CI (tests) and deploy locally or to a free tier'']
     @ (if 70 \<le> avg_score then [stretch_task] else [])
     @ (if avg_score < 50 then [scope_down_task] else [])"

definition add_capstone ::
  "string \<Rightarrow> int \<Rightarrow> string list \<Rightarrow> int \<Rightarrow> week_plan list \<Rightarrow> week_plan list" where
  "add_capstone pace hours prioritized avg_score weeks =
     set_last_resources capstone_resources
       (add_week pace hours (''Capstone: Integrate '' @ join '', '' prioritized)
          (capstone_tasks avg_score) [] weeks)"

definition showcase :: "string list \<Rightarrow> string" where
  "showcase strength_topics =
     (if strength_topics \<noteq> [] then join '', '' (take 3 strength_topics) else ''key concepts'')"

definition add_assessment ::
  "string \<Rightarrow> int \<Rightarrow> string list \<Rightarrow> week_plan list \<Rightarrow> week_plan list" where
  "add_assessment pace hours strength_topics weeks =
     set_last_resources assessment_resources
       (add_week pace hours ''Assessment & Reflection''
          [''Create a README and short demo video of the capstone'',
           ''Write a blog/notes highlighting '' @ showcase strength_topics,
           ''Prepare interview stories around the project (problem, approach, impact)'']
          [] weeks)"

subsection \<open>The endpoint\<close>

text \<open>
  Everything after the request has been read: the weeks of the prioritized skills, the
  capstone week and the assessment week.
\<close>

definition build_weeks ::
  "string \<Rightarrow> int \<Rightarrow> string list \<Rightarrow> string list \<Rightarrow> string list \<Rightarrow> int \<Rightarrow> week_plan list" where
  "build_weeks pace hours prioritized weak_topics strength_topics avg_score =
     add_assessment pace hours strength_topics
       (add_capstone pace hours prioritized avg_score
          (fold (skill_weeks pace hours weak_topics) prioritized []))"

text \<open>
  \<^verbatim>\<open>roadmap\<close>, in the order of the source: the cleaned list and the early return, then
  \<^verbatim>\<open>focus\<close>, \<^verbatim>\<open>pace\<close>, \<^verbatim>\<open>hours\<close>, the prioritization, \<^verbatim>\<open>weak_topics\<close>,
  \<^verbatim>\<open>strength_topics\<close>, \<^verbatim>\<open>avg_score\<close> and the weeks. The first exception raised ends the
  call; the result is the list under the key \<^verbatim>\<open>roadmap\<close> of the response.
\<close>

definition roadmap ::
  "string list \<Rightarrow> (string \<times> json) list option \<Rightarrow> (string \<times> json) list option
     \<Rightarrow> error + week_plan list" where
  "roadmap req_missing req_preferences req_interview =
     (let missing = clean_missing req_missing in
      if missing = [] then Inr []
      else
        let prefs = or_empty_dict req_preferences;
            interview = or_empty_dict req_interview
        in and_then (req_focus prefs) (\<lambda>focus.
           and_then (req_pace prefs) (\<lambda>pace.
           and_then (req_hours prefs) (\<lambda>hours.
           let prioritized = prioritize focus missing in
           and_then (req_topics interview ''weak_topics'') (\<lambda>weak_topics.
           and_then (req_topics interview ''strength_topics'') (\<lambda>strength_topics.
           and_then (req_avg_score interview) (\<lambda>avg_score.
           Inr (build_weeks pace hours prioritized weak_topics strength_topics
                  avg_score))))))))"

subsection \<open>Optional fields the endpoint can read\<close>

text \<open>
  A field is read without an exception when it is absent or falsy (the \<^verbatim>\<open>or\<close> then
  substitutes the default) or has a type the following operation accepts: a string for
  \<^verbatim>\<open>.lower()\<close>, an iterable for the comprehensions, a value \<^verbatim>\<open>int()\<close> converts.
\<close>

fun is_str :: "json \<Rightarrow> bool" where
  "is_str (JStr s) = True"
| "is_str JNone = False"
| "is_str (JBool b) = False"
| "is_str (JInt n) = False"
| "is_str (JFloat f) = False"
| "is_str (JList xs) = False"
| "is_str (JDict kvs) = False"

fun iterable :: "json \<Rightarrow> bool" where
  "iterable (JList xs) = True"
| "iterable (JStr s) = True"
| "iterable (JDict kvs) = True"
| "iterable JNone = False"
| "iterable (JBool b) = False"
| "iterable (JInt n) = False"
| "iterable (JFloat f) = False"

definition int_accepts :: "json \<Rightarrow> bool" where
  "int_accepts v = (\<not> isl (py_int v))"

definition readable :: "(json \<Rightarrow> bool) \<Rightarrow> json \<Rightarrow> bool" where
  "readable ok v = (\<not> truthy v \<or> ok v)"

section \<open>Structure of the computation\<close>

subsection \<open>When the endpoint returns\<close>

lemma and_then_Inr_iff: "and_then r f = Inr y \<longleftrightarrow> (\<exists>x. r = Inr x \<and> f x = Inr y)"
  by (cases r) (simp_all add: and_then_def)

lemma roadmap_Inr_iff:
  assumes "clean_missing m \<noteq> []"
  shows "roadmap m p i = Inr plan \<longleftrightarrow>
   (\<exists>focus pace hours weak strength avg.
      req_focus (or_empty_dict p) = Inr focus \<and>
      req_pace (or_empty_dict p) = Inr pace \<and>
      req_hours (or_empty_dict p) = Inr hours \<and>
      req_topics (or_empty_dict i) ''weak_topics'' = Inr weak \<and>
      req_topics (or_empty_dict i) ''strength_topics'' = Inr strength \<and>
      req_avg_score (or_empty_dict i) = Inr avg \<and>
      plan = build_weeks pace hours (prioritize focus (clean_missing m)) weak strength avg)"
  using assms by (auto simp: roadmap_def Let_def and_then_Inr_iff)

lemma roadmap_eval:
  assumes "clean_missing m = ms" "ms \<noteq> []"
    and "req_focus (or_empty_dict p) = Inr focus"
    and "req_pace (or_empty_dict p) = Inr pace"
    and "req_hours (or_empty_dict p) = Inr hours"
    and "req_topics (or_empty_dict i) ''weak_topics'' = Inr weak"
    and "req_topics (or_empty_dict i) ''strength_topics'' = Inr strength"
    and "req_avg_score (or_empty_dict i) = Inr avg"
    and "prioritize focus ms = ps"
  shows "roadmap m p i = Inr (build_weeks pace hours ps weak strength avg)"
proof -
  from assms(1,2) have "clean_missing m \<noteq> []" by simp
  from roadmap_Inr_iff [OF this] assms show ?thesis by blast
qed

subsection \<open>Each call appends one week\<close>

lemma add_week_snoc:
  "add_week p h t ts s ws =
     ws @ [\<lparr>week = Suc (length ws), milestone = t, tasks = base_tasks p h ts,
            learning_resources = (if s \<noteq> [] then get_learning_resources s t else [])\<rparr>]"
  by (simp add: add_week_def)

lemma set_last_resources_snoc:
  "set_last_resources rs (ws @ [w]) = ws @ [w\<lparr>learning_resources := rs\<rparr>]"
  by (simp add: set_last_resources_def)

lemma add_capstone_snoc:
  "add_capstone p h ps a ws =
     ws @ [\<lparr>week = Suc (length ws), milestone = ''Capstone: Integrate '' @ join '', '' ps,
            tasks = base_tasks p h (capstone_tasks a), learning_resources = capstone_resources\<rparr>]"
  by (simp add: add_capstone_def add_week_snoc set_last_resources_snoc)

lemma add_assessment_snoc:
  "add_assessment p h st ws =
     ws @ [\<lparr>week = Suc (length ws), milestone = ''Assessment & Reflection'',
            tasks = base_tasks p h
              [''Create a README and short demo video of the capstone'',
               ''Write a blog/notes highlighting '' @ showcase st,
               ''Prepare interview stories around the project (problem, approach, impact)''],
            learning_resources = assessment_resources\<rparr>]"
  by (simp add: add_assessment_def add_week_snoc set_last_resources_snoc)

lemma skill_weeks_snoc:
  "skill_weeks p h wt s ws =
     ws @
     [\<lparr>week = Suc (length ws), milestone = ''Foundations: '' @ s,
       tasks = base_tasks p h
         [''Read the official '' @ s @ '' docs and summarize key concepts'',
          ''Complete a beginner tutorial/course for '' @ s,
          ''Practice: implement 2-3 small exercises using '' @ s],
       learning_resources =
         (if s \<noteq> [] then get_learning_resources s (''Foundations: '' @ s) else [])\<rparr>,
      \<lparr>week = Suc (Suc (length ws)), milestone = ''Project: Build with '' @ s,
       tasks = base_tasks p h
         [''Design and build a mini app using '' @ s,
          ''Add tests (unit/integration) and linting for the project'',
          ''Document learnings and challenges; push to a public repo''],
       learning_resources =
         (if s \<noteq> [] then get_learning_resources s (''Project: Build with '' @ s) else [])\<rparr>] @
     (if flagged_weak wt s
      then [\<lparr>week = Suc (Suc (Suc (length ws))), milestone = ''Reinforcement: '' @ s,
              tasks = base_tasks p h
                [''Targeted practice on weak areas in '' @ s @ '' (based on interview)'',
                 ''Implement a small feature addressing an identified gap in '' @ s,
                 ''Summarize lessons learned and update your notes''],
              learning_resources =
                (if s \<noteq> [] then get_learning_resources s (''Reinforcement: '' @ s) else [])\<rparr>]
      else [])"
  by (simp add: skill_weeks_def add_week_snoc Let_def)

lemma fold_skill_weeks_extends: "\<exists>more. fold (skill_weeks p h wt) ps ws = ws @ more"
proof (induction ps arbitrary: ws)
  case Nil
  then show ?case by simp
next
  case (Cons x ps)
  obtain block where b: "skill_weeks p h wt x ws = ws @ block"
    using skill_weeks_snoc [of p h wt x ws] by blast
  obtain more where "fold (skill_weeks p h wt) ps (ws @ block) = (ws @ block) @ more"
    using Cons.IH by blast
  with b show ?case by simp
qed

lemma build_weeks_tail:
  "\<exists>ws a. build_weeks p h ps wt st avg =
      ws @ [\<lparr>week = Suc (length ws), milestone = ''Capstone: Integrate '' @ join '', '' ps,
              tasks = base_tasks p h (capstone_tasks avg),
              learning_resources = capstone_resources\<rparr>, a] \<and>
      milestone a = ''Assessment & Reflection''"
  by (simp add: build_weeks_def add_capstone_snoc add_assessment_snoc)

subsection \<open>Week numbers\<close>

lemma numbered_skill_weeks:
  "map week ws = [1..<Suc (length ws)] \<Longrightarrow>
   map week (skill_weeks p h wt s ws) = [1..<Suc (length (skill_weeks p h wt s ws))]"
  by (simp add: skill_weeks_snoc)

lemma numbered_fold:
  "map week ws = [1..<Suc (length ws)] \<Longrightarrow>
   map week (fold (skill_weeks p h wt) ps ws) =
     [1..<Suc (length (fold (skill_weeks p h wt) ps ws))]"
  by (induction ps arbitrary: ws) (simp_all add: numbered_skill_weeks)

lemma numbered_build_weeks:
  "map week (build_weeks p h ps wt st a) = [1..<Suc (length (build_weeks p h ps wt st a))]"
proof -
  have "map week (fold (skill_weeks p h wt) ps []) =
      [1..<Suc (length (fold (skill_weeks p h wt) ps []))]"
    by (rule numbered_fold) simp
  then show ?thesis
    by (simp add: build_weeks_def add_capstone_snoc add_assessment_snoc)
qed

subsection \<open>The pacing adjustment\<close>





subsection \<open>The score-dependent capstone tasks\<close>

lemma stretch_in_capstone:
  "stretch_task \<in> set (base_tasks p h (capstone_tasks avg)) \<longleftrightarrow>
     70 \<le> avg \<and> p \<noteq> ''slow'' \<and> 5 \<le> h"
  by (auto simp: base_tasks_def capstone_tasks_def stretch_task_def scope_down_task_def
      optional_task_def reflect_task_def)

lemma scope_down_in_capstone:
  "scope_down_task \<in> set (base_tasks p h (capstone_tasks avg)) \<longleftrightarrow>
     avg < 50 \<and> p \<noteq> ''slow'' \<and> 5 \<le> h"
  by (auto simp: base_tasks_def capstone_tasks_def stretch_task_def scope_down_task_def
      optional_task_def reflect_task_def)

subsection \<open>The prioritized list\<close>

lemma distinct_fold_add_remaining:
  "distinct acc \<Longrightarrow> distinct (fold add_remaining ms acc)"
  by (induction ms arbitrary: acc) (simp_all add: add_remaining_def)

lemma set_fold_add_remaining: "set (fold add_remaining ms acc) = set acc \<union> set ms"
  by (induction ms arbitrary: acc) (auto simp: add_remaining_def)

lemma distinct_fold_add_focus_skill:
  "distinct acc \<Longrightarrow> distinct (fold (add_focus_skill ms) ss acc)"
  by (induction ss arbitrary: acc) (simp_all add: add_focus_skill_def)

lemma subset_fold_add_focus_skill:
  "set acc \<subseteq> set ms \<Longrightarrow> set (fold (add_focus_skill ms) ss acc) \<subseteq> set ms"
  by (induction ss arbitrary: acc) (simp_all add: add_focus_skill_def)

lemma focus_pass:
  "distinct acc \<and> set acc \<subseteq> set ms \<Longrightarrow>
   distinct (fold (\<lambda>area. fold (add_focus_skill ms) (area_skills area)) focus acc) \<and>
   set (fold (\<lambda>area. fold (add_focus_skill ms) (area_skills area)) focus acc) \<subseteq> set ms"
  by (induction focus arbitrary: acc)
     (simp_all add: distinct_fold_add_focus_skill subset_fold_add_focus_skill)

lemma distinct_prioritize: "distinct (prioritize focus ms)"
  using focus_pass [of "[]" ms focus]
  by (simp add: prioritize_def distinct_fold_add_remaining)

lemma set_prioritize: "set (prioritize focus ms) = set ms"
  using focus_pass [of "[]" ms focus]
  by (auto simp: prioritize_def set_fold_add_remaining)

lemma count_list_distinct:
  "distinct xs \<Longrightarrow> count_list xs x = (if x \<in> set xs then 1 else 0)"
  by (induction xs) auto

subsection \<open>Reinforcement weeks\<close>

lemma reinforcement_count_skill_weeks:
  "length (filter (\<lambda>w. milestone w = ''Reinforcement: '' @ s) (skill_weeks p h wt x ws)) =
   length (filter (\<lambda>w. milestone w = ''Reinforcement: '' @ s) ws) +
   (if x = s \<and> flagged_weak wt s then 1 else 0)"
  by (simp add: skill_weeks_snoc)

lemma reinforcement_count_fold:
  "length (filter (\<lambda>w. milestone w = ''Reinforcement: '' @ s) (fold (skill_weeks p h wt) ps ws)) =
   length (filter (\<lambda>w. milestone w = ''Reinforcement: '' @ s) ws) +
   (if flagged_weak wt s then count_list ps s else 0)"
proof -
  define Q where "Q = (\<lambda>w::week_plan. milestone w = ''Reinforcement: '' @ s)"
  have step: "length (filter Q (skill_weeks p h wt x ws)) =
      length (filter Q ws) + (if x = s \<and> flagged_weak wt s then 1 else 0)" for x ws
    unfolding Q_def by (rule reinforcement_count_skill_weeks)
  have "length (filter Q (fold (skill_weeks p h wt) ps ws)) =
      length (filter Q ws) + (if flagged_weak wt s then count_list ps s else 0)"
    by (induction ps arbitrary: ws) (simp_all add: step)
  then show ?thesis unfolding Q_def .
qed

lemma reinforcement_count_build_weeks:
  "length (filter (\<lambda>w. milestone w = ''Reinforcement: '' @ s) (build_weeks p h ps wt st a)) =
   (if flagged_weak wt s then count_list ps s else 0)"
proof -
  define Q where "Q = (\<lambda>w::week_plan. milestone w = ''Reinforcement: '' @ s)"
  have f: "length (filter Q (fold (skill_weeks p h wt) ps [])) =
      (if flagged_weak wt s then count_list ps s else 0)"
    unfolding Q_def using reinforcement_count_fold [of s p h wt ps "[]"] by simp
  obtain c d where b: "build_weeks p h ps wt st a = fold (skill_weeks p h wt) ps [] @ [c, d]"
    and c: "milestone c = ''Capstone: Integrate '' @ join '', '' ps"
    and d: "milestone d = ''Assessment & Reflection''"
    by (simp add: build_weeks_def add_capstone_snoc add_assessment_snoc)
  have "\<not> Q c" "\<not> Q d"
    by (simp_all add: Q_def c d)
  with b f have "length (filter Q (build_weeks p h ps wt st a)) =
      (if flagged_weak wt s then count_list ps s else 0)"
    by simp
  then show ?thesis unfolding Q_def .
qed

lemma reinforcement_follows_project_fold:
  assumes "s \<in> set ps" "flagged_weak wt s"
  shows "\<exists>pre pw rw post.
           fold (skill_weeks p h wt) ps ws = pre @ pw # rw # post \<and>
           milestone pw = ''Project: Build with '' @ s \<and>
           milestone rw = ''Reinforcement: '' @ s \<and>
           learning_resources rw =
             (if s \<noteq> [] then get_learning_resources s (''Reinforcement: '' @ s) else [])"
  using assms(1)
proof (induction ps arbitrary: ws)
  case Nil
  then show ?case by simp
next
  case (Cons x ps)
  show ?case
  proof (cases "x = s")
    case True
    obtain f pw rw where blk: "skill_weeks p h wt s ws = (ws @ [f]) @ pw # rw # []"
      and pw: "milestone pw = ''Project: Build with '' @ s"
      and rw: "milestone rw = ''Reinforcement: '' @ s"
      and res: "learning_resources rw =
             (if s \<noteq> [] then get_learning_resources s (''Reinforcement: '' @ s) else [])"
      using assms(2) by (simp add: skill_weeks_snoc)
    obtain more where
      "fold (skill_weeks p h wt) ps (skill_weeks p h wt s ws) = skill_weeks p h wt s ws @ more"
      using fold_skill_weeks_extends by blast
    with blk True have "fold (skill_weeks p h wt) (x # ps) ws = (ws @ [f]) @ pw # rw # more"
      by simp
    with pw rw res show ?thesis by blast
  next
    case False
    with Cons.prems have "s \<in> set ps" by simp
    from Cons.IH [OF this, of "skill_weeks p h wt x ws"] show ?thesis by simp
  qed
qed

lemma reinforcement_follows_project_build_weeks:
  assumes "s \<in> set ps" "flagged_weak wt s"
  shows "\<exists>pre pw rw post.
           build_weeks p h ps wt st a = pre @ pw # rw # post \<and>
           milestone pw = ''Project: Build with '' @ s \<and>
           milestone rw = ''Reinforcement: '' @ s \<and>
           learning_resources rw =
             (if s \<noteq> [] then get_learning_resources s (''Reinforcement: '' @ s) else [])"
proof -
  obtain pre pw rw post where
    f: "fold (skill_weeks p h wt) ps [] = pre @ pw # rw # post"
    and m: "milestone pw = ''Project: Build with '' @ s"
      "milestone rw = ''Reinforcement: '' @ s"
      "learning_resources rw =
             (if s \<noteq> [] then get_learning_resources s (''Reinforcement: '' @ s) else [])"
    using reinforcement_follows_project_fold [OF assms] by blast
  obtain c d where "build_weeks p h ps wt st a = fold (skill_weeks p h wt) ps [] @ [c, d]"
    by (simp add: build_weeks_def add_capstone_snoc add_assessment_snoc)
  with f have "build_weeks p h ps wt st a = pre @ pw # rw # (post @ [c, d])" by simp
  with m show ?thesis by blast
qed

subsection \<open>Resource resolution\<close>

lemma resource_type_cases:
  "resource_type mt = ''foundations'' \<or> resource_type mt = ''project''"
  by (simp add: resource_type_def)

lemma get_learning_resources_default:
  assumes "skill \<notin> set (map fst skill_resources)"
    and "\<forall>key \<in> set (map fst skill_resources). \<not> partial_match skill key"
  shows "get_learning_resources skill mt =
           bucket (default_resources skill) (resource_type mt)"
proof -
  from assms(1) have none: "map_of skill_resources skill = None"
    by (simp add: map_of_eq_None_iff)
  from assms(2) have "find (partial_match skill) (map fst skill_resources) = None"
    by (simp add: find_None_iff)
  with none have "skill_key skill = skill"
    by (simp add: skill_key_def)
  with none show ?thesis
    by (simp add: get_learning_resources_def)
qed

lemma default_bucket_three:
  "length (bucket (default_resources skill) (resource_type mt)) = 3"
  using resource_type_cases [of mt]
  by (auto simp: bucket_def default_resources_def)

lemma default_bucket_urls:
  "r \<in> set (bucket (default_resources skill) (resource_type mt)) \<Longrightarrow> sublist skill (url r)"
  using resource_type_cases [of mt]
  by (auto simp: bucket_def default_resources_def sublist_Cons_right)

lemma catalog_buckets_three:
  "list_all (\<lambda>kb. length (bucket (snd kb) ''foundations'') = 3 \<and>
                  length (bucket (snd kb) ''project'') = 3) skill_resources"
  by (simp add: skill_resources_def bucket_def)

lemma get_learning_resources_three: "length (get_learning_resources skill mt) = 3"
proof (cases "map_of skill_resources (skill_key skill)")
  case None
  then show ?thesis
    by (simp add: get_learning_resources_def default_bucket_three)
next
  case (Some bs)
  then have "(skill_key skill, bs) \<in> set skill_resources"
    by (rule map_of_SomeD)
  with catalog_buckets_three
  have "length (bucket bs ''foundations'') = 3 \<and> length (bucket bs ''project'') = 3"
    by (auto simp: list_all_iff)
  with Some show ?thesis
    using resource_type_cases [of mt] by (auto simp: get_learning_resources_def)
qed

lemma three_resources_skill_weeks:
  "s \<noteq> [] \<Longrightarrow> list_all (\<lambda>w. length (learning_resources w) = 3) ws \<Longrightarrow>
   list_all (\<lambda>w. length (learning_resources w) = 3) (skill_weeks p h wt s ws)"
  by (simp add: skill_weeks_snoc get_learning_resources_three)

lemma three_resources_fold:
  "\<forall>s \<in> set ps. s \<noteq> [] \<Longrightarrow> list_all (\<lambda>w. length (learning_resources w) = 3) ws \<Longrightarrow>
   list_all (\<lambda>w. length (learning_resources w) = 3) (fold (skill_weeks p h wt) ps ws)"
  by (induction ps arbitrary: ws) (simp_all add: three_resources_skill_weeks)

lemma three_resources_build_weeks:
  assumes "\<forall>s \<in> set ps. s \<noteq> []"
  shows "list_all (\<lambda>w. length (learning_resources w) = 3) (build_weeks p h ps wt st a)"
proof -
  have "list_all (\<lambda>w. length (learning_resources w) = 3) (fold (skill_weeks p h wt) ps [])"
    by (rule three_resources_fold [OF assms]) simp
  then show ?thesis
    by (simp add: build_weeks_def add_capstone_snoc add_assessment_snoc
        capstone_resources_def assessment_resources_def)
qed

subsection \<open>Reading single fields\<close>

lemma lower_balanced: "lower ''balanced'' = ''balanced''"
  by code_simp

lemma lower_React: "lower ''React'' = ''react''"
  by code_simp

lemma int_refuses_separator: "py_int (JStr [CHR 0x1C, CHR ''5'']) = Inl ValueError"
  by code_simp

lemma int_skips_padding:
  "py_int (JStr [CHR 0x09, CHR ''-'', CHR ''1'', CHR ''_'', CHR ''0'', CHR 0xA0]) = Inr (- 10)"
  by code_simp

lemma int_strip_replicate:
  "\<not> is_int_space c \<Longrightarrow> int_strip (replicate n c) = replicate n c"
  by (simp add: int_strip_def dropWhile_eq_self_iff hd_rev last_replicate replicate_Suc)

lemma int_refuses_long_literal:
  assumes "max_str_digits < n"
  shows "py_int (JStr (replicate n CHR ''1'')) = Inl ValueError"
proof -
  have sp: "\<not> is_int_space CHR ''1''" and dg: "is_digit CHR ''1''"
    by code_simp+
  from assms obtain k where n: "n = Suc k"
    by (cases n) simp_all
  have "int_strip (replicate n CHR ''1'') = CHR ''1'' # replicate k CHR ''1''"
    using int_strip_replicate [OF sp, of n] by (simp add: n)
  with assms dg show ?thesis
    by (simp add: int_of_str_def n)
qed

lemma py_lower_ok: "(\<exists>s. py_lower v = Inr s) \<longleftrightarrow> is_str v"
  by (cases v) simp_all

lemma py_iter_ok: "(\<exists>xs. py_iter v = Inr xs) \<longleftrightarrow> iterable v"
  by (cases v) simp_all

lemma py_int_ok: "(\<exists>n. py_int v = Inr n) \<longleftrightarrow> int_accepts v"
  by (cases "py_int v") (simp_all add: int_accepts_def)

lemma req_pace_ok: "(\<exists>s. req_pace P = Inr s) \<longleftrightarrow> readable is_str (dict_get P ''pace'')"
  using py_lower_ok [of "dict_get P ''pace''"]
  by (simp add: req_pace_def py_or_def readable_def)

lemma req_hours_ok:
  "(\<exists>n. req_hours P = Inr n) \<longleftrightarrow> readable int_accepts (dict_get P ''availability_hours'')"
  using py_int_ok [of "dict_get P ''availability_hours''"]
  by (simp add: req_hours_def py_or_def readable_def)

lemma req_avg_score_ok:
  "(\<exists>n. req_avg_score I = Inr n) \<longleftrightarrow> readable int_accepts (dict_get I ''avg_score'')"
  using py_int_ok [of "dict_get I ''avg_score''"]
  by (simp add: req_avg_score_def py_or_def readable_def)

lemma req_focus_ok:
  "(\<exists>xs. req_focus P = Inr xs) \<longleftrightarrow> readable iterable (dict_get P ''focus'')"
  using py_iter_ok [of "dict_get P ''focus''"]
  by (auto simp: req_focus_def py_or_def readable_def split: sum.splits)

lemma req_topics_ok:
  "(\<exists>xs. req_topics I k = Inr xs) \<longleftrightarrow> readable iterable (dict_get I k)"
  using py_iter_ok [of "dict_get I k"]
  by (auto simp: req_topics_def py_or_def readable_def split: sum.splits)

lemma req_pace_default: "\<not> truthy (dict_get P ''pace'') \<Longrightarrow> req_pace P = Inr ''balanced''"
  by (simp add: req_pace_def py_or_def lower_balanced)

lemma req_hours_default:
  "\<not> truthy (dict_get P ''availability_hours'') \<Longrightarrow> req_hours P = Inr 6"
  by (simp add: req_hours_def py_or_def)

lemma req_avg_score_default: "\<not> truthy (dict_get I ''avg_score'') \<Longrightarrow> req_avg_score I = Inr 0"
  by (simp add: req_avg_score_def py_or_def)

lemma req_focus_default: "\<not> truthy (dict_get P ''focus'') \<Longrightarrow> req_focus P = Inr []"
  by (simp add: req_focus_def py_or_def)

lemma req_topics_default: "\<not> truthy (dict_get I k) \<Longrightarrow> req_topics I k = Inr []"
  by (simp add: req_topics_def py_or_def)

lemma req_focus_list:
  "dict_get P ''focus'' = JList xs \<Longrightarrow> req_focus P = Inr (map lower (str_entries xs))"
  by (simp add: req_focus_def py_or_def)

lemma req_topics_list: "dict_get I k = JList xs \<Longrightarrow> req_topics I k = Inr (str_entries xs)"
  by (simp add: req_topics_def py_or_def)

lemma roadmap_returns_iff:
  assumes "clean_missing m \<noteq> []"
  shows "(\<exists>plan. roadmap m p i = Inr plan) \<longleftrightarrow>
           readable iterable (dict_get (or_empty_dict p) ''focus'') \<and>
           readable is_str (dict_get (or_empty_dict p) ''pace'') \<and>
           readable int_accepts (dict_get (or_empty_dict p) ''availability_hours'') \<and>
           readable iterable (dict_get (or_empty_dict i) ''weak_topics'') \<and>
           readable iterable (dict_get (or_empty_dict i) ''strength_topics'') \<and>
           readable int_accepts (dict_get (or_empty_dict i) ''avg_score'')"
proof -
  have "(\<exists>plan. roadmap m p i = Inr plan) \<longleftrightarrow>
      (\<exists>xs. req_focus (or_empty_dict p) = Inr xs) \<and>
      (\<exists>s. req_pace (or_empty_dict p) = Inr s) \<and>
      (\<exists>n. req_hours (or_empty_dict p) = Inr n) \<and>
      (\<exists>xs. req_topics (or_empty_dict i) ''weak_topics'' = Inr xs) \<and>
      (\<exists>xs. req_topics (or_empty_dict i) ''strength_topics'' = Inr xs) \<and>
      (\<exists>n. req_avg_score (or_empty_dict i) = Inr n)"
    unfolding roadmap_Inr_iff [OF assms] by blast
  then show ?thesis
    by (simp only: req_focus_ok req_pace_ok req_hours_ok req_topics_ok req_avg_score_ok)
qed

subsection \<open>The capstone week of a returned plan\<close>

lemma roadmap_capstone_week:
  assumes "clean_missing m \<noteq> []" "roadmap m p i = Inr plan"
    and "req_pace (or_empty_dict p) = Inr pace"
    and "req_hours (or_empty_dict p) = Inr hours"
    and "req_avg_score (or_empty_dict i) = Inr avg"
  shows "\<exists>ws c a. plan = ws @ [c, a] \<and> prefix ''Capstone: Integrate '' (milestone c) \<and>
           tasks c = base_tasks pace hours (capstone_tasks avg) \<and>
           milestone a = ''Assessment & Reflection''"
proof -
  from roadmap_Inr_iff [OF assms(1)] assms(2-5)
  obtain ps weak strength where
    "plan = build_weeks pace hours ps weak strength avg"
    by auto
  moreover obtain ws a where
    "build_weeks pace hours ps weak strength avg =
       ws @ [\<lparr>week = Suc (length ws), milestone = ''Capstone: Integrate '' @ join '', '' ps,
              tasks = base_tasks pace hours (capstone_tasks avg),
              learning_resources = capstone_resources\<rparr>, a]"
    "milestone a = ''Assessment & Reflection''"
    using build_weeks_tail by blast
  ultimately show ?thesis by fastforce
qed

lemma roadmap_capstone_tasks:
  assumes "roadmap m p i = Inr (ws @ [c, a])"
    and "req_pace (or_empty_dict p) = Inr pace"
    and "req_hours (or_empty_dict p) = Inr hours"
    and "req_avg_score (or_empty_dict i) = Inr avg"
  shows "tasks c = base_tasks pace hours (capstone_tasks avg)"
proof -
  have ne: "clean_missing m \<noteq> []"
  proof
    assume "clean_missing m = []"
    then have "roadmap m p i = Inr []" by (simp add: roadmap_def)
    with assms(1) show False by simp
  qed
  from roadmap_capstone_week [OF ne assms]
  obtain ws' c' a' where "ws @ [c, a] = ws' @ [c', a']"
    and t: "tasks c' = base_tasks pace hours (capstone_tasks avg)"
    by blast
  then have "(ws @ [c]) @ [a] = (ws' @ [c']) @ [a']" by simp
  then have "ws @ [c] = ws' @ [c']" by (simp only: append1_eq_conv)
  then have "c = c'" by simp
  with t show ?thesis by simp
qed

subsection \<open>Plans without a blank skill\<close>

lemma roadmap_three_resources:
  assumes "roadmap m p i = Inr plan" "[] \<notin> set (clean_missing m)"
  shows "list_all (\<lambda>w. length (learning_resources w) = 3) plan"
proof (cases "clean_missing m = []")
  case True
  with assms(1) show ?thesis by (simp add: roadmap_def)
next
  case False
  from roadmap_Inr_iff [OF False] assms(1)
  obtain focus pace hours weak strength avg where
    plan: "plan = build_weeks pace hours (prioritize focus (clean_missing m)) weak strength avg"
    by auto
  from assms(2) have "\<forall>s \<in> set (prioritize focus (clean_missing m)). s \<noteq> []"
    by (auto simp: set_prioritize)
  from three_resources_build_weeks [OF this] plan show ?thesis by simp
qed

subsection \<open>Evaluated requests\<close>

lemma req_defaults:
  "req_focus [] = Inr []"
  "req_pace [] = Inr ''balanced''"
  "req_hours [] = Inr 6"
  "req_topics [] ''weak_topics'' = Inr []"
  "req_topics [] ''strength_topics'' = Inr []"
  "req_avg_score [] = Inr 0"
  by code_simp+

lemma clean_react: "clean_missing [''React''] = [''React'']"
  by code_simp

lemma prioritize_react: "prioritize [] [''React''] = [''React'']"
  by code_simp

lemma split_last_two:
  "length xs = Suc (Suc n) \<Longrightarrow> xs = take n xs @ [xs ! n, xs ! Suc n]"
  by (auto simp: list_eq_iff_nth_eq nth_append less_Suc_eq)

section \<open>The claims\<close>

subsection \<open>C9: an empty cleaned list gives the empty roadmap\<close>

text \<open>
  Claim C9. For every preferences and interview value, the endpoint applied to a
  \<^verbatim>\<open>missing\<close> list that is empty after cleaning returns the empty roadmap immediately,
  with no weeks and no error. The early return stands before the optional fields are
  read, so a malformed field cannot raise here.
\<close>

theorem empty_missing_gives_empty_roadmap:
  "clean_missing m = [] \<Longrightarrow> roadmap m p i = Inr []"
  by (simp add: roadmap_def)

theorem empty_missing_gives_empty_roadmap_witness:
  "clean_missing ['''', ''''] = [] \<and>
   roadmap ['''', ''''] (Some [(''pace'', JInt 5)]) (Some [(''avg_score'', JStr ''high'')]) =
     Inr []"
proof -
  have c: "clean_missing ['''', ''''] = []"
    by (simp add: clean_missing_def)
  from empty_missing_gives_empty_roadmap [OF c] c show ?thesis by simp
qed

subsection \<open>C5: week numbers are 1..N\<close>

text \<open>
  Claim C5. In every plan the endpoint produces, the week numbers are exactly 1..N with no
  gaps and no repeats: \<^verbatim>\<open>add_week\<close> leaves the weeks appended so far in place and gives
  the new week the number of those weeks plus one.
\<close>

theorem week_numbers_sequential:
  assumes "roadmap m p i = Inr plan"
  shows "map week plan = [1..<Suc (length plan)] \<and>
         butlast (add_week pace hours t ts s ws) = ws \<and>
         week (last (add_week pace hours t ts s ws)) = length ws + 1"
proof (cases "clean_missing m = []")
  case True
  with assms show ?thesis by (simp add: roadmap_def add_week_snoc)
next
  case False
  with assms obtain pc h ps wt st a where "plan = build_weeks pc h ps wt st a"
    by (auto simp: roadmap_Inr_iff)
  then show ?thesis using numbered_build_weeks by (simp add: add_week_snoc)
qed

theorem week_numbers_sequential_witness:
  "roadmap [''React''] None None = Inr (build_weeks ''balanced'' 6 [''React''] [] [] 0) \<and>
   map week (build_weeks ''balanced'' 6 [''React''] [] [] 0) = [1, 2, 3, 4]"
proof -
  have r: "roadmap [''React''] None None =
      Inr (build_weeks ''balanced'' 6 [''React''] [] [] 0)"
    by (rule roadmap_eval [OF clean_react _ _ _ _ _ _ _ prioritize_react])
       (simp_all add: or_empty_dict_def req_defaults)
  have "length (build_weeks ''balanced'' 6 [''React''] [] [] 0) = 4"
    by (simp add: build_weeks_def add_capstone_snoc add_assessment_snoc skill_weeks_snoc
        flagged_weak_def)
  moreover have "[1..<Suc 4] = [1, 2, 3, 4]"
    by (simp add: upt_rec)
  ultimately show ?thesis
    using week_numbers_sequential
      [where pace = "''balanced''" and hours = 6 and t = "[]" and ts = "[]" and s = "[]"
         and ws = "[]", OF r] r
    by simp
qed

subsection \<open>C4: the two-skill example\<close>

text \<open>
  Claim C4. On \<^verbatim>\<open>missing = ["React", "Node.js"]\<close> with preferences
  \<^verbatim>\<open>{focus: ["frontend"], pace: "balanced", availability_hours: 6}\<close> and no interview
  signals, the prioritized order is React, Node.js and the plan is the six weeks
  Foundations and Project of React, Foundations and Project of Node.js, the capstone
  integrating React, Node.js and the assessment, numbered 1 to 6. (The Project weeks carry
  the title \<^verbatim>\<open>Project: Build with <skill>\<close>.)
\<close>

theorem two_skill_example:
  "prioritize [''frontend''] [''React'', ''Node.js''] = [''React'', ''Node.js''] \<and>
   roadmap [''React'', ''Node.js'']
     (Some [(''focus'', JList [JStr ''frontend'']), (''pace'', JStr ''balanced''),
            (''availability_hours'', JInt 6)])
     None =
     Inr (build_weeks ''balanced'' 6 [''React'', ''Node.js''] [] [] 0) \<and>
   map week (build_weeks ''balanced'' 6 [''React'', ''Node.js''] [] [] 0) =
     [1, 2, 3, 4, 5, 6] \<and>
   map milestone (build_weeks ''balanced'' 6 [''React'', ''Node.js''] [] [] 0) =
     [''Foundations: React'', ''Project: Build with React'',
      ''Foundations: Node.js'', ''Project: Build with Node.js'',
      ''Capstone: Integrate React, Node.js'', ''Assessment & Reflection'']"
proof -
  have c: "clean_missing [''React'', ''Node.js''] = [''React'', ''Node.js'']"
    by code_simp
  have f: "req_focus [(''focus'', JList [JStr ''frontend'']), (''pace'', JStr ''balanced''),
            (''availability_hours'', JInt 6)] = Inr [''frontend'']"
    by code_simp
  have pc: "req_pace [(''focus'', JList [JStr ''frontend'']), (''pace'', JStr ''balanced''),
            (''availability_hours'', JInt 6)] = Inr ''balanced''"
    by code_simp
  have h: "req_hours [(''focus'', JList [JStr ''frontend'']), (''pace'', JStr ''balanced''),
            (''availability_hours'', JInt 6)] = Inr 6"
    by code_simp
  have pr: "prioritize [''frontend''] [''React'', ''Node.js''] = [''React'', ''Node.js'']"
    by code_simp
  have r: "roadmap [''React'', ''Node.js'']
     (Some [(''focus'', JList [JStr ''frontend'']), (''pace'', JStr ''balanced''),
            (''availability_hours'', JInt 6)])
     None =
     Inr (build_weeks ''balanced'' 6 [''React'', ''Node.js''] [] [] 0)"
    by (rule roadmap_eval [OF c _ _ _ _ _ _ _ pr])
       (simp_all add: or_empty_dict_def req_defaults f pc h)
  have w: "map week (build_weeks ''balanced'' 6 [''React'', ''Node.js''] [] [] 0) =
     [1, 2, 3, 4, 5, 6]"
    by (simp add: build_weeks_def add_capstone_snoc add_assessment_snoc skill_weeks_snoc
        flagged_weak_def)
  have t: "map milestone (build_weeks ''balanced'' 6 [''React'', ''Node.js''] [] [] 0) =
     [''Foundations: React'', ''Project: Build with React'',
      ''Foundations: Node.js'', ''Project: Build with Node.js'',
      ''Capstone: Integrate React, Node.js'', ''Assessment & Reflection'']"
    by (simp add: build_weeks_def add_capstone_snoc add_assessment_snoc skill_weeks_snoc
        flagged_weak_def)
  from pr r w t show ?thesis by (simp only: simp_thms)
qed

subsection \<open>C6: slow pace or few hours\<close>



subsection \<open>C1: stretch and scope-down tasks of the capstone week\<close>




subsection \<open>C3: the two score conditions exclude each other\<close>

text \<open>
  Claim C3 says that for some input both the stretch task (average score at least 70) and
  the scope-down task (average score below 50) are appended to the capstone week together.
  No plan the endpoint returns has a week before the last one that lists both.
\<close>

theorem never_both_score_tasks:
  "\<not> (\<exists>m p i ws c a. roadmap m p i = Inr (ws @ [c, a]) \<and>
        stretch_task \<in> set (tasks c) \<and> scope_down_task \<in> set (tasks c))"
proof
  assume "\<exists>m p i ws c a. roadmap m p i = Inr (ws @ [c, a]) \<and>
        stretch_task \<in> set (tasks c) \<and> scope_down_task \<in> set (tasks c)"
  then obtain m p i ws c a where r: "roadmap m p i = Inr (ws @ [c, a])"
    and both: "stretch_task \<in> set (tasks c)" "scope_down_task \<in> set (tasks c)"
    by blast
  have ne: "clean_missing m \<noteq> []"
  proof
    assume "clean_missing m = []"
    then have "roadmap m p i = Inr []" by (simp add: roadmap_def)
    with r show False by simp
  qed
  from roadmap_Inr_iff [OF ne] r obtain pace hours avg where
    "req_pace (or_empty_dict p) = Inr pace" "req_hours (or_empty_dict p) = Inr hours"
    "req_avg_score (or_empty_dict i) = Inr avg"
    by auto
  from roadmap_capstone_tasks [OF r this]
  have "tasks c = base_tasks pace hours (capstone_tasks avg)" .
  with both show False
    by (simp add: stretch_in_capstone scope_down_in_capstone)
qed

text \<open>
  Claim C3 as amended: for every input, the week before the final assessment week lists
  the stretch task only if the average score is at least 70 and the scope-down task only
  if it is below 50; the two conditions exclude each other, so at most one of the two
  tasks is appended.
\<close>

theorem score_tasks_exclusive:
  assumes "roadmap m p i = Inr (ws @ [c, a])"
    and "req_avg_score (or_empty_dict i) = Inr avg"
  shows "(stretch_task \<in> set (tasks c) \<longrightarrow> 70 \<le> avg) \<and>
         (scope_down_task \<in> set (tasks c) \<longrightarrow> avg < 50) \<and>
         \<not> (stretch_task \<in> set (tasks c) \<and> scope_down_task \<in> set (tasks c))"
proof -
  have ne: "clean_missing m \<noteq> []"
  proof
    assume "clean_missing m = []"
    then have "roadmap m p i = Inr []" by (simp add: roadmap_def)
    with assms(1) show False by simp
  qed
  from roadmap_Inr_iff [OF ne] assms(1) obtain pace hours where
    "req_pace (or_empty_dict p) = Inr pace" "req_hours (or_empty_dict p) = Inr hours"
    by auto
  from roadmap_capstone_tasks [OF assms(1) this assms(2)]
  have "tasks c = base_tasks pace hours (capstone_tasks avg)" .
  then show ?thesis
    by (simp add: stretch_in_capstone scope_down_in_capstone)
qed

theorem score_tasks_exclusive_witness:
  "roadmap [''React''] None (Some [(''avg_score'', JInt 75)]) =
     Inr (take 2 (build_weeks ''balanced'' 6 [''React''] [] [] 75) @
          [build_weeks ''balanced'' 6 [''React''] [] [] 75 ! 2,
           build_weeks ''balanced'' 6 [''React''] [] [] 75 ! 3]) \<and>
   req_avg_score [(''avg_score'', JInt 75)] = Inr 75 \<and>
   stretch_task \<in> set (tasks (build_weeks ''balanced'' 6 [''React''] [] [] 75 ! 2)) \<and>
   scope_down_task \<notin> set (tasks (build_weeks ''balanced'' 6 [''React''] [] [] 75 ! 2))"
proof -
  have w: "req_topics [(''avg_score'', JInt 75)] ''weak_topics'' = Inr []"
    by code_simp
  have st: "req_topics [(''avg_score'', JInt 75)] ''strength_topics'' = Inr []"
    by code_simp
  have a: "req_avg_score [(''avg_score'', JInt 75)] = Inr 75"
    by code_simp
  have "length (build_weeks ''balanced'' 6 [''React''] [] [] 75) = Suc (Suc 2)"
    by (simp add: build_weeks_def add_capstone_snoc add_assessment_snoc skill_weeks_snoc
        flagged_weak_def)
  then have split: "build_weeks ''balanced'' 6 [''React''] [] [] 75 =
      take 2 (build_weeks ''balanced'' 6 [''React''] [] [] 75) @
          [build_weeks ''balanced'' 6 [''React''] [] [] 75 ! 2,
           build_weeks ''balanced'' 6 [''React''] [] [] 75 ! 3]"
    using split_last_two [of "build_weeks ''balanced'' 6 [''React''] [] [] 75" 2]
    by (simp add: numeral_3_eq_3)
  have "roadmap [''React''] None (Some [(''avg_score'', JInt 75)]) =
      Inr (build_weeks ''balanced'' 6 [''React''] [] [] 75)"
    by (rule roadmap_eval [OF clean_react _ _ _ _ _ _ _ prioritize_react])
       (simp_all add: or_empty_dict_def req_defaults w st a)
  with split have r: "roadmap [''React''] None (Some [(''avg_score'', JInt 75)]) =
     Inr (take 2 (build_weeks ''balanced'' 6 [''React''] [] [] 75) @
          [build_weeks ''balanced'' 6 [''React''] [] [] 75 ! 2,
           build_weeks ''balanced'' 6 [''React''] [] [] 75 ! 3])"
    by simp
  have a': "req_avg_score (or_empty_dict (Some [(''avg_score'', JInt 75)])) = Inr 75"
    by (simp add: or_empty_dict_def a)
  have s: "stretch_task \<in> set (tasks (build_weeks ''balanced'' 6 [''React''] [] [] 75 ! 2))"
    by (simp add: build_weeks_def add_capstone_snoc add_assessment_snoc skill_weeks_snoc
        flagged_weak_def base_tasks_def capstone_tasks_def)
  from score_tasks_exclusive [OF r a'] r a s show ?thesis by blast
qed

subsection \<open>C2: malformed optional fields\<close>

text \<open>
  Claim C2 says that the endpoint never raises for a malformed optional field: for every
  preferences and interview value it treats the field as absent, substitutes the neutral
  default and returns a plan. A pace that is a non-zero number is kept by the \<^verbatim>\<open>or\<close>
  and has no method \<^verbatim>\<open>lower\<close>: the call ends with an exception.
\<close>

theorem numeric_pace_raises:
  "roadmap [''React''] (Some [(''pace'', JInt 5)]) None = Inl AttributeError"
proof -
  have f: "req_focus [(''pace'', JInt 5)] = Inr []"
    by code_simp
  have pc: "req_pace [(''pace'', JInt 5)] = Inl AttributeError"
    by code_simp
  show ?thesis
    by (simp add: roadmap_def clean_react or_empty_dict_def and_then_def f pc)
qed

text \<open>
  Claim C2 as amended: for a cleaned non-empty list, the endpoint returns a plan rather
  than failing exactly when every optional field can be read, that is when it is absent
  or falsy, or \<^verbatim>\<open>pace\<close> is a string, \<^verbatim>\<open>availability_hours\<close> and \<^verbatim>\<open>avg_score\<close> are values
  that \<^verbatim>\<open>int()\<close> converts, and \<^verbatim>\<open>focus\<close>, \<^verbatim>\<open>weak_topics\<close> and \<^verbatim>\<open>strength_topics\<close> are
  iterable. An absent or falsy field takes the neutral default (pace balanced, 6 hours,
  score 0, empty lists), and the non-string entries of a list are dropped.
\<close>

theorem optional_fields_read_or_raise:
  assumes "clean_missing m \<noteq> []"
  shows "((\<exists>plan. roadmap m p i = Inr plan) \<longleftrightarrow>
            readable iterable (dict_get (or_empty_dict p) ''focus'') \<and>
            readable is_str (dict_get (or_empty_dict p) ''pace'') \<and>
            readable int_accepts (dict_get (or_empty_dict p) ''availability_hours'') \<and>
            readable iterable (dict_get (or_empty_dict i) ''weak_topics'') \<and>
            readable iterable (dict_get (or_empty_dict i) ''strength_topics'') \<and>
            readable int_accepts (dict_get (or_empty_dict i) ''avg_score'')) \<and>
         (\<not> truthy (dict_get P ''focus'') \<longrightarrow> req_focus P = Inr []) \<and>
         (\<not> truthy (dict_get P ''pace'') \<longrightarrow> req_pace P = Inr ''balanced'') \<and>
         (\<not> truthy (dict_get P ''availability_hours'') \<longrightarrow> req_hours P = Inr 6) \<and>
         (\<not> truthy (dict_get I k) \<longrightarrow> req_topics I k = Inr []) \<and>
         (\<not> truthy (dict_get I ''avg_score'') \<longrightarrow> req_avg_score I = Inr 0) \<and>
         (dict_get P ''focus'' = JList xs \<longrightarrow> req_focus P = Inr (map lower (str_entries xs))) \<and>
         (dict_get I k = JList xs \<longrightarrow> req_topics I k = Inr (str_entries xs))"
  using roadmap_returns_iff [OF assms, of p i]
  by (simp add: req_focus_default req_pace_default req_hours_default req_topics_default
      req_avg_score_default req_focus_list req_topics_list)

theorem optional_fields_read_or_raise_witness:
  "(\<exists>plan. roadmap [''React'']
      (Some [(''focus'', JList [JInt 3, JStr ''Frontend'']),
             (''availability_hours'', JStr ''7'')])
      (Some [(''weak_topics'', JNone)]) = Inr plan) \<and>
   req_pace [(''focus'', JList [JInt 3, JStr ''Frontend'']),
             (''availability_hours'', JStr ''7'')] = Inr ''balanced'' \<and>
   req_focus [(''focus'', JList [JInt 3, JStr ''Frontend'']),
              (''availability_hours'', JStr ''7'')] = Inr [''frontend''] \<and>
   req_topics [(''weak_topics'', JNone)] ''weak_topics'' = Inr []"
proof -
  have ne: "clean_missing [''React''] \<noteq> []"
    by (simp add: clean_react)
  have g: "dict_get [(''focus'', JList [JInt 3, JStr ''Frontend'']),
             (''availability_hours'', JStr ''7'')] ''focus'' =
           JList [JInt 3, JStr ''Frontend'']"
    "dict_get [(''focus'', JList [JInt 3, JStr ''Frontend'']),
             (''availability_hours'', JStr ''7'')] ''pace'' = JNone"
    "dict_get [(''focus'', JList [JInt 3, JStr ''Frontend'']),
             (''availability_hours'', JStr ''7'')] ''availability_hours'' = JStr ''7''"
    "dict_get [(''weak_topics'', JNone)] ''weak_topics'' = JNone"
    "dict_get [(''weak_topics'', JNone)] ''strength_topics'' = JNone"
    "dict_get [(''weak_topics'', JNone)] ''avg_score'' = JNone"
    by (simp_all add: dict_get_def)
  have seven: "int_accepts (JStr ''7'')"
    by code_simp
  have low: "lower ''Frontend'' = ''frontend''"
    by code_simp
  from optional_fields_read_or_raise
    [OF ne, where p = "Some [(''focus'', JList [JInt 3, JStr ''Frontend'']),
                             (''availability_hours'', JStr ''7'')]"
       and i = "Some [(''weak_topics'', JNone)]"
       and P = "[(''focus'', JList [JInt 3, JStr ''Frontend'']),
                 (''availability_hours'', JStr ''7'')]"
       and I = "[(''weak_topics'', JNone)]" and k = "''weak_topics''"
       and xs = "[JInt 3, JStr ''Frontend'']"]
  show ?thesis
    by (simp add: or_empty_dict_def g readable_def seven low)
qed

subsection \<open>C7: the reinforcement week of React\<close>

text \<open>
  Claim C7. For every input whose cleaned list contains "React", the plan has a week
  "Reinforcement: React" if and only if some weak topic contains "react" when lowercased;
  that week comes right after the Project week of React and carries the resources of the
  "project" bucket of React. The weak topics are the string entries read from the
  interview; there is exactly one such week.
\<close>

theorem react_reinforcement_week:
  assumes "''React'' \<in> set (clean_missing m)"
    and "req_topics (or_empty_dict i) ''weak_topics'' = Inr wt"
    and "roadmap m p i = Inr plan"
  shows "((\<exists>w \<in> set plan. milestone w = ''Reinforcement: React'') \<longleftrightarrow>
            (\<exists>t \<in> set wt. sublist ''react'' (lower t))) \<and>
         ((\<exists>t \<in> set wt. sublist ''react'' (lower t)) \<longrightarrow>
            length (filter (\<lambda>w. milestone w = ''Reinforcement: React'') plan) = 1 \<and>
            resource_type ''Reinforcement: React'' = ''project'' \<and>
            (\<exists>pre pw rw post.
               plan = pre @ pw # rw # post \<and>
               milestone pw = ''Project: Build with React'' \<and>
               milestone rw = ''Reinforcement: React'' \<and>
               learning_resources rw =
                 [\<lparr>title = ''React Project Ideas'',
                    url = ''https://github.com/florinpop17/app-ideas'',
                    type = ''project-ideas''\<rparr>,
                  \<lparr>title = ''Testing React Apps'',
                    url = ''https://testing-library.com/docs/react-testing-library/intro/'',
                    type = ''documentation''\<rparr>,
                  \<lparr>title = ''React Best Practices'',
                    url = ''https://react.dev/learn/thinking-in-react'',
                    type = ''guide''\<rparr>]))"
proof -
  from assms(1) have ne: "clean_missing m \<noteq> []" by auto
  from roadmap_Inr_iff [OF ne] assms(2,3)
  obtain focus pace hours st avg where
    plan: "plan = build_weeks pace hours (prioritize focus (clean_missing m)) wt st avg"
    by auto
  define ps where "ps = prioritize focus (clean_missing m)"
  have mem: "''React'' \<in> set ps"
    using assms(1) by (simp add: ps_def set_prioritize)
  then have one: "count_list ps ''React'' = 1"
    using count_list_distinct [of ps "''React''"] by (simp add: ps_def distinct_prioritize)
  have flag: "flagged_weak wt ''React'' \<longleftrightarrow> (\<exists>t \<in> set wt. sublist ''react'' (lower t))"
    by (simp add: flagged_weak_def list_ex_iff lower_React)
  have count: "length (filter (\<lambda>w. milestone w = ''Reinforcement: React'') plan) =
      (if flagged_weak wt ''React'' then 1 else 0)"
    using reinforcement_count_build_weeks [of "''React''" pace hours ps wt st avg] one
    by (simp add: plan ps_def)
  have "(\<exists>w \<in> set plan. milestone w = ''Reinforcement: React'') \<longleftrightarrow>
      0 < length (filter (\<lambda>w. milestone w = ''Reinforcement: React'') plan)"
    by (simp add: filter_empty_conv)
  with count flag have iff: "(\<exists>w \<in> set plan. milestone w = ''Reinforcement: React'') \<longleftrightarrow>
      (\<exists>t \<in> set wt. sublist ''react'' (lower t))"
    by simp
  have rt: "resource_type ''Reinforcement: React'' = ''project''"
    by code_simp
  have res: "get_learning_resources ''React'' ''Reinforcement: React'' =
      [\<lparr>title = ''React Project Ideas'',
         url = ''https://github.com/florinpop17/app-ideas'',
         type = ''project-ideas''\<rparr>,
       \<lparr>title = ''Testing React Apps'',
         url = ''https://testing-library.com/docs/react-testing-library/intro/'',
         type = ''documentation''\<rparr>,
       \<lparr>title = ''React Best Practices'',
         url = ''https://react.dev/learn/thinking-in-react'',
         type = ''guide''\<rparr>]"
    by code_simp
  have follows: "\<exists>pre pw rw post.
               plan = pre @ pw # rw # post \<and>
               milestone pw = ''Project: Build with React'' \<and>
               milestone rw = ''Reinforcement: React'' \<and>
               learning_resources rw = get_learning_resources ''React'' ''Reinforcement: React''"
    if "flagged_weak wt ''React''"
    using reinforcement_follows_project_build_weeks [OF mem that, of pace hours st avg]
    by (simp add: plan ps_def)
  from iff count flag rt follows show ?thesis
    by (simp add: res)
qed

theorem react_reinforcement_week_witness:
  "roadmap [''React''] None (Some [(''weak_topics'', JList [JStr ''React Hooks'', JInt 1])]) =
     Inr (build_weeks ''balanced'' 6 [''React''] [''React Hooks''] [] 0) \<and>
   list_ex (\<lambda>t. sublist ''react'' (lower t)) [''React Hooks''] \<and>
   list_ex (\<lambda>w. milestone w = ''Reinforcement: React'')
     (build_weeks ''balanced'' 6 [''React''] [''React Hooks''] [] 0) \<and>
   length (filter (\<lambda>w. milestone w = ''Reinforcement: React'')
     (build_weeks ''balanced'' 6 [''React''] [''React Hooks''] [] 0)) = 1"
proof -
  have w: "req_topics [(''weak_topics'', JList [JStr ''React Hooks'', JInt 1])]
      ''weak_topics'' = Inr [''React Hooks'']"
    by code_simp
  have st: "req_topics [(''weak_topics'', JList [JStr ''React Hooks'', JInt 1])]
      ''strength_topics'' = Inr []"
    by code_simp
  have a: "req_avg_score [(''weak_topics'', JList [JStr ''React Hooks'', JInt 1])] = Inr 0"
    by code_simp
  have r: "roadmap [''React''] None
      (Some [(''weak_topics'', JList [JStr ''React Hooks'', JInt 1])]) =
      Inr (build_weeks ''balanced'' 6 [''React''] [''React Hooks''] [] 0)"
    by (rule roadmap_eval [OF clean_react _ _ _ _ _ _ _ prioritize_react])
       (simp_all add: or_empty_dict_def req_defaults w st a)
  have mem: "''React'' \<in> set (clean_missing [''React''])"
    by (simp add: clean_react)
  have w': "req_topics (or_empty_dict
      (Some [(''weak_topics'', JList [JStr ''React Hooks'', JInt 1])])) ''weak_topics'' =
      Inr [''React Hooks'']"
    by (simp add: or_empty_dict_def w)
  have hit: "list_ex (\<lambda>t. sublist ''react'' (lower t)) [''React Hooks'']"
    by code_simp
  from react_reinforcement_week [OF mem w' r] r hit show ?thesis
    by (simp add: list_ex_iff)
qed

subsection \<open>C8: a skill outside the catalog\<close>

text \<open>
  Claim C8. For every skill that is no key of the catalog and matches no key as a
  lowercased substring in either direction (for example "Rust"), the resolution returns,
  for the bucket the milestone selects, the three generic resources built from the skill
  name, and the URL of each contains the skill name.
\<close>

theorem unknown_skill_gets_generic_resources:
  assumes "skill \<notin> set (map fst skill_resources)"
    and "\<forall>key \<in> set (map fst skill_resources). \<not> partial_match skill key"
  shows "get_learning_resources skill mt = bucket (default_resources skill) (resource_type mt) \<and>
         length (get_learning_resources skill mt) = 3 \<and>
         (\<forall>r \<in> set (get_learning_resources skill mt). sublist skill (url r))"
  using get_learning_resources_default [OF assms, of mt]
  by (simp add: default_bucket_three default_bucket_urls)

theorem unknown_skill_gets_generic_resources_witness:
  "''Rust'' \<notin> set (map fst skill_resources) \<and>
   list_all (\<lambda>key. \<not> partial_match ''Rust'' key) (map fst skill_resources) \<and>
   length (get_learning_resources ''Rust'' ''Project: Build with Rust'') = 3 \<and>
   map url (get_learning_resources ''Rust'' ''Project: Build with Rust'') =
     [''https://www.google.com/search?q=Rust+project+ideas'',
      ''https://www.google.com/search?q=Rust+best+practices'',
      ''https://www.google.com/search?q=Rust+testing+guide''] \<and>
   list_all (\<lambda>r. sublist ''Rust'' (url r))
     (get_learning_resources ''Rust'' ''Project: Build with Rust'')"
proof -
  have k: "''Rust'' \<notin> set (map fst skill_resources)"
    by code_simp
  have n: "list_all (\<lambda>key. \<not> partial_match ''Rust'' key) (map fst skill_resources)"
    by code_simp
  then have n': "\<forall>key \<in> set (map fst skill_resources). \<not> partial_match ''Rust'' key"
    by (simp add: list_all_iff)
  have rt: "resource_type ''Project: Build with Rust'' = ''project''"
    by code_simp
  have u: "map url (bucket (default_resources ''Rust'') ''project'') =
     [''https://www.google.com/search?q=Rust+project+ideas'',
      ''https://www.google.com/search?q=Rust+best+practices'',
      ''https://www.google.com/search?q=Rust+testing+guide'']"
    by (simp add: bucket_def default_resources_def)
  have l: "length (bucket (default_resources ''Rust'') ''project'') = 3"
    by (simp add: bucket_def default_resources_def)
  from unknown_skill_gets_generic_resources [OF k n', of "''Project: Build with Rust''"] k n u l
  show ?thesis
    by (simp add: rt list_all_iff)
qed

subsection \<open>C10: three resources in every week\<close>

text \<open>
  Claim C10 says that every week of every roadmap carries exactly three learning
  resources. The cleaning of \<^verbatim>\<open>missing\<close> tests an entry for emptiness before it strips
  it, so an entry of whitespace survives as the empty skill name; \<^verbatim>\<open>add_week\<close> looks up
  resources only for a non-empty skill, and the two weeks of that skill get none. The
  request \<^verbatim>\<open>missing = [" "]\<close> without preferences or interview shows it.
\<close>

theorem blank_skill_weeks_have_no_resources:
  "roadmap ['' ''] None None = Inr (build_weeks ''balanced'' 6 [''''] [] [] 0) \<and>
   map milestone (build_weeks ''balanced'' 6 [''''] [] [] 0) =
     [''Foundations: '', ''Project: Build with '', ''Capstone: Integrate '',
      ''Assessment & Reflection''] \<and>
   map learning_resources (build_weeks ''balanced'' 6 [''''] [] [] 0) =
     [[], [], capstone_resources, assessment_resources] \<and>
   length capstone_resources = 3 \<and> length assessment_resources = 3"
proof -
  have c: "clean_missing ['' ''] = ['''']"
    by code_simp
  have pr: "prioritize [] [''''] = ['''']"
    by code_simp
  have r: "roadmap ['' ''] None None = Inr (build_weeks ''balanced'' 6 [''''] [] [] 0)"
    by (rule roadmap_eval [OF c _ _ _ _ _ _ _ pr])
       (simp_all add: or_empty_dict_def req_defaults)
  have ms: "map milestone (build_weeks ''balanced'' 6 [''''] [] [] 0) =
     [''Foundations: '', ''Project: Build with '', ''Capstone: Integrate '',
      ''Assessment & Reflection'']"
    by (simp add: build_weeks_def add_capstone_snoc add_assessment_snoc skill_weeks_snoc
        flagged_weak_def)
  have rs: "map learning_resources (build_weeks ''balanced'' 6 [''''] [] [] 0) =
     [[], [], capstone_resources, assessment_resources]"
    by (simp add: build_weeks_def add_capstone_snoc add_assessment_snoc skill_weeks_snoc
        flagged_weak_def)
  have l: "length capstone_resources = 3" "length assessment_resources = 3"
    by (simp_all add: capstone_resources_def assessment_resources_def)
  from r ms rs l show ?thesis by (simp only: simp_thms)
qed

end
